theory Spec2Isabelle
  imports Complex_Main
begin

section \<open>Linear programming solver: simplex tableau machine\<close>

text \<open>
  The development embeds the numerical core of the solver: \<open>SimplexSolver\<close>,
  \<open>SensitivityAnalyzer\<close> and \<open>GraphicalSolver\<close>.

  Conventions of the embedding.
  \<^item> A JavaScript \<open>number\<close> is a \<open>real\<close>: arithmetic is exact, there is no rounding and
    no NaN. The infinities the source stores in result fields are constructors of the
    type \<open>number\<close> below; inside a tableau every entry is a real. The ratio of the
    minimum-ratio test, which the source compares with positive infinity, is a
    \<open>number\<close>: it is infinite when the quotient of the two doubles overflows.
  \<^item> A string is a \<open>string\<close> (a list of bytes); the non-ASCII symbols of the source are
    written in UTF-8.
  \<^item> A sentinel \<open>-1\<close> for "not found" is \<open>None\<close>; an optional field is an \<open>option\<close>.
  \<^item> The message texts pushed to \<open>steps\<close> and stored in \<open>explanation\<close> are constructors
    that carry the numbers the source prints into the text.
  \<^item> A read \<open>xs[j]\<close> the source guards with \<open>|| 0\<close> is \<open>nth_or_zero\<close>. An unguarded read
    past the end of a list gives \<open>undefined\<close> in the source and is outside the model:
    a problem carries one objective coefficient per variable, and the rows of a tableau
    have one length.
  \<^item> \<open>Math.random()\<close> is a sequence of reals given to the analyzer, read in the order of
    the calls.
  \<^item> A field name that several interfaces of the source share carries a prefix here
    (\<open>t_rhs\<close> is the \<open>rhs\<close> of a tableau, \<open>s_isOptimal\<close> the \<open>isOptimal\<close> of a solution,
    \<open>ln_a\<close> the \<open>a\<close> of a line, and so on); \<open>ptype\<close> is the field \<open>type\<close> of a problem.
    Of a problem, the fields the three engines read are kept: \<open>type\<close>, the coefficients
    of \<open>objective\<close>, \<open>constraints\<close> and \<open>variables\<close>.
\<close>

subsection \<open>Data model\<close>

datatype problemType = Maximize | Minimize

datatype operator = LE | GE | EQ

datatype number = Num real | PosInfinity | NegInfinity

record constraint =
  coefficients :: "real list"
  operator :: operator
  rhs :: real
  expression :: string

record objective =
  obj_coefficients :: "real list"

record problem =
  ptype :: problemType
  objective :: objective
  constraints :: "constraint list"
  variables :: "string list"

record standardConstraint =
  sc_coefficients :: "real list"
  sc_rhs :: real
  slackVar :: "string option"
  surplusVar :: "string option"
  artificialVar :: "string option"

record standardForm =
  sf_type :: problemType
  originalType :: problemType
  objectiveCoefficients :: "real list"
  sf_variables :: "string list"
  sf_constraints :: "standardConstraint list"
  slackVarCount :: nat
  surplusVarCount :: nat
  artificialVarCount :: nat

datatype explanation = InitialTableau | PivotDone nat nat

record tableau =
  table :: "real list list"
  basicVariables :: "string list"
  nonBasicVariables :: "string list"
  objectiveRow :: "real list"
  t_rhs :: "real list"
  iteration :: nat
  isOptimal :: bool
  pivotRow :: "nat option"
  pivotCol :: "nat option"
  explanation :: explanation

text \<open>
  The entries of \<open>steps\<close>, by the message each stands for:
  \<open>StepInitial\<close> the initial tableau was created (iteration 0);
  \<open>StepPivotAt k r c\<close> iteration \<open>k\<close> pivots at row \<open>r\<close>, column \<open>c\<close> (both printed 1-based);
  \<open>StepPivotCompleted k\<close> the pivot operation of iteration \<open>k\<close> is complete;
  \<open>StepUnbounded k\<close> iteration \<open>k\<close> detected an unbounded solution;
  \<open>StepMaxIterations\<close> the maximum number of iterations was reached.
\<close>

datatype step =
  StepInitial
  | StepPivotAt nat nat nat
  | StepPivotCompleted nat
  | StepUnbounded nat
  | StepMaxIterations

record simplexSolution =
  s_isOptimal :: bool
  s_isFeasible :: bool
  s_isUnbounded :: bool
  s_optimalValue :: number
  s_variables :: "string \<rightharpoonup> real"
  tableaus :: "tableau list"
  finalTableau :: "tableau option"
  steps :: "step list"

subsection \<open>Helpers for the language's built-ins\<close>

definition nth_or_zero :: "real list \<Rightarrow> nat \<Rightarrow> real" where
  "nth_or_zero xs j = (if j < length xs then xs ! j else 0)"

text \<open>The decimal text of a counter, as a template literal prints it.\<close>

definition digit :: "nat \<Rightarrow> char" where
  "digit d = ''0123456789'' ! d"

fun show_nat :: "nat \<Rightarrow> string" where
  "show_nat n = (if n < 10 then [digit n] else show_nat (n div 10) @ [digit (n mod 10)])"

declare show_nat.simps [simp del]

text \<open>\<open>Array.prototype.indexOf\<close>: the first position of a value, \<open>None\<close> for \<open>-1\<close>.\<close>

fun indexOf :: "'a list \<Rightarrow> 'a \<Rightarrow> nat option" where
  "indexOf [] v = None"
| "indexOf (x # xs) v = (if x = v then Some 0 else map_option Suc (indexOf xs v))"

text \<open>\<open>indexOf\<close> followed by \<open>splice(index, 1)\<close> when the value is found.\<close>

definition spliceOut :: "string list \<Rightarrow> string \<Rightarrow> string list" where
  "spliceOut xs v = (case indexOf xs v of None \<Rightarrow> xs | Some i \<Rightarrow> take i xs @ drop (Suc i) xs)"

subsection \<open>SimplexSolver.convertToStandardForm\<close>

text \<open>
  The loop over the constraints, with the three counters and the list built so far as
  its state. Slack and surplus variables are both named \<open>s\<close> followed by their own counter.
\<close>

fun convertConstraints ::
  "constraint list \<Rightarrow> nat \<Rightarrow> nat \<Rightarrow> nat \<Rightarrow> standardConstraint list
    \<Rightarrow> standardConstraint list \<times> nat \<times> nat \<times> nat" where
  "convertConstraints [] slackN surplusN artificialN acc = (acc, slackN, surplusN, artificialN)"
| "convertConstraints (c # cs) slackN surplusN artificialN acc =
     (let base = \<lparr> sc_coefficients = coefficients c, sc_rhs = rhs c,
                   slackVar = None, surplusVar = None, artificialVar = None \<rparr>
      in case operator c of
           LE \<Rightarrow> convertConstraints cs (slackN + 1) surplusN artificialN
                   (acc @ [base\<lparr> slackVar := Some (''s'' @ show_nat (slackN + 1)) \<rparr>])
         | GE \<Rightarrow> convertConstraints cs slackN (surplusN + 1) (artificialN + 1)
                   (acc @ [base\<lparr> surplusVar := Some (''s'' @ show_nat (surplusN + 1)),
                                 artificialVar := Some (''a'' @ show_nat (artificialN + 1)) \<rparr>])
         | EQ \<Rightarrow> convertConstraints cs slackN surplusN (artificialN + 1)
                   (acc @ [base\<lparr> artificialVar := Some (''a'' @ show_nat (artificialN + 1)) \<rparr>]))"

definition convertToStandardForm :: "problem \<Rightarrow> standardForm" where
  "convertToStandardForm p =
     (let objCoeffs = (if ptype p = Minimize
                       then map (\<lambda>c. - c) (obj_coefficients (objective p))
                       else obj_coefficients (objective p));
          (standardConstraints, slackN, surplusN, artificialN) =
             convertConstraints (constraints p) 0 0 0 []
      in \<lparr> sf_type = ptype p, originalType = ptype p, objectiveCoefficients = objCoeffs,
           sf_variables = variables p, sf_constraints = standardConstraints,
           slackVarCount = slackN, surplusVarCount = surplusN,
           artificialVarCount = artificialN \<rparr>)"

subsection \<open>SimplexSolver.initializeTableau\<close>

text \<open>
  The inner loop over \<open>k\<close> that places the coefficient of the slack, surplus and
  artificial variable of constraint \<open>i\<close>; \<open>varIndex\<close> advances over every auxiliary
  column in constraint order.
\<close>

fun fillAuxiliary ::
  "nat \<Rightarrow> nat \<Rightarrow> standardConstraint list \<Rightarrow> nat \<Rightarrow> real list \<Rightarrow> real list" where
  "fillAuxiliary i k [] varIndex row = row"
| "fillAuxiliary i k (c # cs) varIndex row =
     (let (row1, v1) = (if slackVar c \<noteq> None
                        then (if k = i then row[varIndex := 1] else row, varIndex + 1)
                        else (row, varIndex));
          (row2, v2) = (if surplusVar c \<noteq> None
                        then (if k = i then row1[v1 := - 1] else row1, v1 + 1)
                        else (row1, v1));
          (row3, v3) = (if artificialVar c \<noteq> None
                        then (if k = i then row2[v2 := 1] else row2, v2 + 1)
                        else (row2, v2))
      in fillAuxiliary i (k + 1) cs v3 row3)"

definition totalVars :: "standardForm \<Rightarrow> nat" where
  "totalVars sf =
     length (sf_variables sf) + slackVarCount sf + surplusVarCount sf + artificialVarCount sf"

definition constraintRow :: "standardForm \<Rightarrow> nat \<Rightarrow> real list" where
  "constraintRow sf i =
     (let c = sf_constraints sf ! i;
          numVars = length (sf_variables sf);
          row0 = map (\<lambda>j. if j < numVars then nth_or_zero (sc_coefficients c) j else 0)
                   [0..<totalVars sf + 1];
          row1 = fillAuxiliary i 0 (sf_constraints sf) numVars row0
      in row1[totalVars sf := sc_rhs c])"

text \<open>The basic variable of a row: the slack variable, else the artificial variable.\<close>

definition rowBasicVariable :: "standardConstraint \<Rightarrow> string list" where
  "rowBasicVariable c =
     (case slackVar c of Some s \<Rightarrow> [s]
      | None \<Rightarrow> (case artificialVar c of Some a \<Rightarrow> [a] | None \<Rightarrow> []))"

definition initialBasicVariables :: "standardForm \<Rightarrow> string list" where
  "initialBasicVariables sf = concat (map rowBasicVariable (sf_constraints sf))"

definition initialObjectiveRow :: "standardForm \<Rightarrow> real list" where
  "initialObjectiveRow sf =
     map (\<lambda>j. if j < length (sf_variables sf) then - (objectiveCoefficients sf ! j) else 0)
       [0..<totalVars sf + 1]"

text \<open>
  The names of the tableau's columns in order (\<open>allVariables\<close> in the source): the
  decision variables, then for each constraint its slack, surplus and artificial
  variable.
\<close>

definition auxiliaryNames :: "standardConstraint \<Rightarrow> string list" where
  "auxiliaryNames c =
     (case slackVar c of Some s \<Rightarrow> [s] | None \<Rightarrow> [])
     @ (case surplusVar c of Some s \<Rightarrow> [s] | None \<Rightarrow> [])
     @ (case artificialVar c of Some a \<Rightarrow> [a] | None \<Rightarrow> [])"

definition allVariables :: "standardForm \<Rightarrow> string list" where
  "allVariables sf = sf_variables sf @ concat (map auxiliaryNames (sf_constraints sf))"

text \<open>The non-basic list before the basic variables are spliced out of it.\<close>

definition nonBasicCandidates :: "string list \<Rightarrow> standardConstraint \<Rightarrow> string list" where
  "nonBasicCandidates basics c =
     (case slackVar c of Some s \<Rightarrow> (if s \<in> set basics then [] else [s]) | None \<Rightarrow> [])
     @ (case surplusVar c of Some s \<Rightarrow> [s] | None \<Rightarrow> [])
     @ (case artificialVar c of Some a \<Rightarrow> (if a \<in> set basics then [] else [a]) | None \<Rightarrow> [])"

definition initialNonBasicVariables :: "standardForm \<Rightarrow> string list" where
  "initialNonBasicVariables sf =
     (let basics = initialBasicVariables sf;
          pushed = sf_variables sf @ concat (map (nonBasicCandidates basics) (sf_constraints sf))
      in foldl spliceOut pushed basics)"

definition checkOptimality :: "real list \<Rightarrow> bool" where
  "checkOptimality row = list_all (\<lambda>v. \<not> v < - (1 / 10 ^ 10)) (butlast row)"

definition initializeTableau :: "standardForm \<Rightarrow> tableau" where
  "initializeTableau sf =
     (let tbl = map (constraintRow sf) [0..<length (sf_constraints sf)] @ [initialObjectiveRow sf]
      in \<lparr> table = tbl,
           basicVariables = initialBasicVariables sf,
           nonBasicVariables = initialNonBasicVariables sf,
           objectiveRow = initialObjectiveRow sf,
           t_rhs = map last tbl,
           iteration = 0,
           isOptimal = checkOptimality (initialObjectiveRow sf),
           pivotRow = None, pivotCol = None,
           explanation = InitialTableau \<rparr>)"

subsection \<open>Numbers that may be infinite\<close>

fun num_less :: "number \<Rightarrow> number \<Rightarrow> bool" where
  "num_less (Num u) (Num v) = (u < v)"
| "num_less NegInfinity NegInfinity = False"
| "num_less NegInfinity v = True"
| "num_less u PosInfinity = (u \<noteq> PosInfinity)"
| "num_less u v = False"

definition num_min :: "number \<Rightarrow> number \<Rightarrow> number" where
  "num_min u v = (if num_less v u then v else u)"

text \<open>
  The quotient of two doubles, as far as its being infinite goes: the exact quotient
  rounds to an infinity exactly when its magnitude reaches \<open>2^1024 - 2^970\<close>, the largest
  double plus half the gap above it; \<open>overflowBound\<close> is that number written out. A finite
  quotient is kept exact.
\<close>

definition overflowBound :: real where
  "overflowBound =
     179769313486231580793728971405303415079934132710037826936173778980444968292764750946649017977587207096330286416692887910946555547851940402630657488671505820681908902000708383676273854845817711531764475730270069855571366959622842914819860834936475292719074168444365510704342711559699508093042880177904174497792"

definition jsQuotient :: "real \<Rightarrow> real \<Rightarrow> number" where
  "jsQuotient u v =
     (if u / v \<ge> overflowBound then PosInfinity
      else if u / v \<le> - overflowBound then NegInfinity
      else Num (u / v))"

subsection \<open>Pivot selection\<close>

text \<open>
  \<open>findPivotColumn\<close>: the loop over the objective row (the last row of the table) without
  its right-hand side, keeping the smallest value seen below 0 and its column.
\<close>

fun pivotColumnLoop :: "real list \<Rightarrow> nat \<Rightarrow> real \<Rightarrow> nat option \<Rightarrow> nat option" where
  "pivotColumnLoop [] j minValue pivotC = pivotC"
| "pivotColumnLoop (v # vs) j minValue pivotC =
     (if v < minValue then pivotColumnLoop vs (j + 1) v (Some j)
      else pivotColumnLoop vs (j + 1) minValue pivotC)"

definition findPivotColumn :: "tableau \<Rightarrow> nat option" where
  "findPivotColumn t = pivotColumnLoop (butlast (last (table t))) 0 0 None"

text \<open>
  \<open>findPivotRow\<close>: the minimum-ratio test over the constraint rows (all rows but the
  last). \<open>minRatio\<close> starts at positive infinity and a row is taken when its ratio is
  strictly below \<open>minRatio\<close>; the ratio is the quotient of two doubles and may itself be
  infinite.
\<close>

fun pivotRowLoop ::
  "real list list \<Rightarrow> nat \<Rightarrow> nat \<Rightarrow> number \<Rightarrow> nat option \<Rightarrow> nat option" where
  "pivotRowLoop [] pivotC i minRatio pivotR = pivotR"
| "pivotRowLoop (row # rows) pivotC i minRatio pivotR =
     (let element = row ! pivotC; r = last row
      in if element > 0
         then (let ratio = jsQuotient r element
               in if num_less ratio minRatio
                  then pivotRowLoop rows pivotC (i + 1) ratio (Some i)
                  else pivotRowLoop rows pivotC (i + 1) minRatio pivotR)
         else pivotRowLoop rows pivotC (i + 1) minRatio pivotR)"

definition findPivotRow :: "tableau \<Rightarrow> nat \<Rightarrow> nat option" where
  "findPivotRow t pivotC = pivotRowLoop (butlast (table t)) pivotC 0 PosInfinity None"

subsection \<open>SimplexSolver.pivot\<close>

text \<open>
  The pivot row is divided by the pivot element; every other row \<open>i\<close> loses
  \<open>multiplier\<close> times the normalised pivot row, where \<open>multiplier\<close> is the entry of row
  \<open>i\<close> in the pivot column read before the row is changed. The table of the argument is
  copied row by row first and is not written to.
\<close>

definition normalizeRow :: "real list \<Rightarrow> real \<Rightarrow> real list" where
  "normalizeRow row pivotElement = map (\<lambda>v. v / pivotElement) row"

definition eliminateRow :: "real list \<Rightarrow> nat \<Rightarrow> real list \<Rightarrow> real list" where
  "eliminateRow pivotRowN pivotC row =
     (let multiplier = row ! pivotC
      in map (\<lambda>j. row ! j - multiplier * pivotRowN ! j) [0..<length row])"

definition pivotTable :: "real list list \<Rightarrow> nat \<Rightarrow> nat \<Rightarrow> real list list" where
  "pivotTable tbl pivotR pivotC =
     (let pivotElement = tbl ! pivotR ! pivotC;
          pivotRowN = normalizeRow (tbl ! pivotR) pivotElement
      in map (\<lambda>i. if i = pivotR then pivotRowN else eliminateRow pivotRowN pivotC (tbl ! i))
           [0..<length tbl])"

text \<open>
  The entering variable is read from the non-basic list at the index of the pivot
  column; when that read gives nothing (or the empty string) the name is \<open>x\<close> followed
  by the 1-based column number.
\<close>

definition enteringVariable :: "tableau \<Rightarrow> nat \<Rightarrow> string" where
  "enteringVariable t pivotC =
     (if pivotC < length (nonBasicVariables t) \<and> nonBasicVariables t ! pivotC \<noteq> []
      then nonBasicVariables t ! pivotC
      else ''x'' @ show_nat (pivotC + 1))"

definition pivot :: "tableau \<Rightarrow> nat \<Rightarrow> nat \<Rightarrow> nat \<Rightarrow> tableau" where
  "pivot t pivotR pivotC iter =
     (let newTable = pivotTable (table t) pivotR pivotC;
          enteringVar = enteringVariable t pivotC;
          newBasicVariables = (basicVariables t)[pivotR := enteringVar];
          leavingVar = basicVariables t ! pivotR;
          newNonBasicVariables =
            (case indexOf (nonBasicVariables t) enteringVar of
               None \<Rightarrow> nonBasicVariables t
             | Some enteringIndex \<Rightarrow> (nonBasicVariables t)[enteringIndex := leavingVar]);
          objRow = last newTable
      in \<lparr> table = newTable,
           basicVariables = newBasicVariables,
           nonBasicVariables = newNonBasicVariables,
           objectiveRow = objRow,
           t_rhs = map last newTable,
           iteration = iter,
           isOptimal = checkOptimality objRow,
           pivotRow = None, pivotCol = None,
           explanation = PivotDone (pivotR + 1) (pivotC + 1) \<rparr>)"

subsection \<open>SimplexSolver.extractSolution\<close>

fun assignBasic ::
  "string list \<Rightarrow> (string \<times> real) list \<Rightarrow> (string \<rightharpoonup> real) \<Rightarrow> (string \<rightharpoonup> real)" where
  "assignBasic vars [] m = m"
| "assignBasic vars ((varName, v) # rest) m =
     assignBasic vars rest (if varName \<in> set vars then m(varName \<mapsto> max 0 v) else m)"

definition extractSolution :: "tableau \<Rightarrow> standardForm \<Rightarrow> (string \<rightharpoonup> real) \<times> real" where
  "extractSolution t sf =
     (let zeros = foldl (\<lambda>m v. m(v \<mapsto> 0)) Map.empty (sf_variables sf);
          vars = assignBasic (sf_variables sf) (zip (basicVariables t) (t_rhs t)) zeros;
          objectiveValue = last (table t) ! (length (table t ! 0) - 1)
      in (vars, if originalType sf = Minimize then - objectiveValue else objectiveValue))"

subsection \<open>SimplexSolver.solve\<close>

text \<open>
  The state of the loop. The array \<open>tableaus\<close> holds the snapshot objects in the order
  they were created; the variable \<open>tableau\<close> of the source refers to one of them, and
  here it is the index \<open>current\<close> of that object in \<open>snapshots\<close>. A write through the variable
  is therefore a write to the element of the array.
\<close>

record solveState =
  snapshots :: "tableau list"
  current :: nat
  msgs :: "step list"
  iter :: nat

text \<open>
  One pass through the \<open>while\<close> statement, its condition included: the body runs to its end
  and the loop goes on (\<open>Continue\<close>), the function returns the unbounded result from inside
  the body (\<open>ReturnUnbounded\<close>), or the loop is left, by its condition or by \<open>break\<close>
  (\<open>LeaveLoop\<close>).
\<close>

datatype bodyResult = Continue solveState | ReturnUnbounded solveState | LeaveLoop solveState

definition maxIterations :: nat where
  "maxIterations = 100"

definition loopBody :: "solveState \<Rightarrow> bodyResult" where
  "loopBody st =
     (let t = snapshots st ! current st
      in if \<not> isOptimal t \<and> iter st < maxIterations
         then (let k = iter st + 1
               in case findPivotColumn t of
                    None \<Rightarrow>
                      LeaveLoop (st\<lparr> snapshots := (snapshots st)[current st := t\<lparr> isOptimal := True \<rparr>],
                                    iter := k \<rparr>)
                  | Some pivotC \<Rightarrow>
                      (case findPivotRow t pivotC of
                         None \<Rightarrow>
                           ReturnUnbounded (st\<lparr> msgs := msgs st @ [StepUnbounded k], iter := k \<rparr>)
                       | Some pivotR \<Rightarrow>
                           (let marked = t\<lparr> pivotRow := Some pivotR, pivotCol := Some pivotC \<rparr>;
                                snaps = (snapshots st)[current st := marked];
                                t' = pivot marked pivotR pivotC k
                            in Continue
                                 \<lparr> snapshots = snaps @ [t'],
                                   current = length snaps,
                                   msgs = msgs st @ [StepPivotAt k (pivotR + 1) (pivotC + 1),
                                                     StepPivotCompleted k],
                                   iter = k \<rparr>)))
         else LeaveLoop st)"

datatype loopResult = UnboundedAt solveState | LoopExit solveState

function solveLoop :: "solveState \<Rightarrow> loopResult" where
  "solveLoop st =
     (case loopBody st of
        Continue st' \<Rightarrow> solveLoop st'
      | ReturnUnbounded st' \<Rightarrow> UnboundedAt st'
      | LeaveLoop st' \<Rightarrow> LoopExit st')"
  by pat_completeness auto
termination
proof (relation "measure (\<lambda>st. maxIterations - iter st)")
  show "wf (measure (\<lambda>st. maxIterations - iter st))"
    by simp
next
  fix st st'
  assume "loopBody st = Continue st'"
  then have "iter st < maxIterations \<and> iter st' = iter st + 1"
    by (auto simp: loopBody_def Let_def split: if_splits option.splits)
  then show "(st', st) \<in> measure (\<lambda>st. maxIterations - iter st)"
    by auto
qed

declare solveLoop.simps [simp del]

definition initialState :: "problem \<Rightarrow> solveState" where
  "initialState p =
     \<lparr> snapshots = [initializeTableau (convertToStandardForm p)], current = 0,
       msgs = [StepInitial], iter = 0 \<rparr>"

definition solve :: "problem \<Rightarrow> simplexSolution" where
  "solve p =
     (let sf = convertToStandardForm p
      in case solveLoop (initialState p) of
           UnboundedAt st \<Rightarrow>
             \<lparr> s_isOptimal = False, s_isFeasible = True, s_isUnbounded = True,
               s_optimalValue = (if ptype p = Maximize then PosInfinity else NegInfinity),
               s_variables = Map.empty,
               tableaus = snapshots st,
               finalTableau = Some (snapshots st ! current st),
               steps = msgs st \<rparr>
         | LoopExit st \<Rightarrow>
             (let t = snapshots st ! current st;
                  (vars, objectiveValue) = extractSolution t sf
              in \<lparr> s_isOptimal = isOptimal t, s_isFeasible = True, s_isUnbounded = False,
                   s_optimalValue = Num objectiveValue,
                   s_variables = vars,
                   tableaus = snapshots st,
                   finalTableau = Some t,
                   steps = (if iter st \<ge> maxIterations then msgs st @ [StepMaxIterations]
                            else msgs st) \<rparr>))"

subsection \<open>The scenarios of the specification\<close>

definition scenarioA :: problem where
  "scenarioA =
     \<lparr> ptype = Maximize, objective = \<lparr> obj_coefficients = [3, 2] \<rparr>,
       constraints =
         [\<lparr> coefficients = [1, 1], operator = LE, rhs = 4, expression = ''x1 + x2'' \<rparr>,
          \<lparr> coefficients = [2, 1], operator = LE, rhs = 6, expression = ''2x1 + x2'' \<rparr>],
       variables = [''x1'', ''x2''] \<rparr>"

definition scenarioB :: problem where
  "scenarioB =
     \<lparr> ptype = Minimize, objective = \<lparr> obj_coefficients = [2, 3] \<rparr>,
       constraints =
         [\<lparr> coefficients = [1, 2], operator = GE, rhs = 6, expression = ''x1 + 2x2'' \<rparr>,
          \<lparr> coefficients = [2, 1], operator = GE, rhs = 8, expression = ''2x1 + x2'' \<rparr>],
       variables = [''x1'', ''x2''] \<rparr>"

definition scenarioC :: problem where
  "scenarioC =
     \<lparr> ptype = Maximize, objective = \<lparr> obj_coefficients = [1, 1] \<rparr>,
       constraints =
         [\<lparr> coefficients = [1, - 1], operator = LE, rhs = 1, expression = ''x1 - x2'' \<rparr>],
       variables = [''x1'', ''x2''] \<rparr>"

text \<open>
  Three further inputs. In \<open>slackEntersProblem\<close> (maximize 3x1 + 2x2 subject to
  8x1 + x2 <= 8 and 4x1 + x2 <= 6) the third pivot brings a slack column into the basis;
  every number of its tableaus is a multiple of a power of one half.
  \<open>upperThenLowerProblem\<close> is maximize x1 subject to x1 <= 3 and x1 >= 1;
  \<open>lowerThenUpperProblem\<close> has the same two constraints in the other order.
\<close>

definition slackEntersProblem :: problem where
  "slackEntersProblem =
     \<lparr> ptype = Maximize, objective = \<lparr> obj_coefficients = [3, 2] \<rparr>,
       constraints =
         [\<lparr> coefficients = [8, 1], operator = LE, rhs = 8, expression = ''8x1 + x2'' \<rparr>,
          \<lparr> coefficients = [4, 1], operator = LE, rhs = 6, expression = ''4x1 + x2'' \<rparr>],
       variables = [''x1'', ''x2''] \<rparr>"

definition upperThenLowerProblem :: problem where
  "upperThenLowerProblem =
     \<lparr> ptype = Maximize, objective = \<lparr> obj_coefficients = [1] \<rparr>,
       constraints =
         [\<lparr> coefficients = [1], operator = LE, rhs = 3, expression = ''x1'' \<rparr>,
          \<lparr> coefficients = [1], operator = GE, rhs = 1, expression = ''x1'' \<rparr>],
       variables = [''x1''] \<rparr>"

definition lowerThenUpperProblem :: problem where
  "lowerThenUpperProblem =
     \<lparr> ptype = Maximize, objective = \<lparr> obj_coefficients = [1] \<rparr>,
       constraints =
         [\<lparr> coefficients = [1], operator = GE, rhs = 1, expression = ''x1'' \<rparr>,
          \<lparr> coefficients = [1], operator = LE, rhs = 3, expression = ''x1'' \<rparr>],
       variables = [''x1''] \<rparr>"

section \<open>SensitivityAnalyzer\<close>

subsection \<open>Data model\<close>

text \<open>
  The texts the analyzer produces are constructors that carry the values printed into
  them: \<open>NotActive\<close> says that the constraint is not active and has slack; \<open>Priced ty v\<close>
  is the sentence about the shadow price \<open>v\<close> printed with three decimals, worded for the
  problem type \<open>ty\<close>.
\<close>

datatype priceInterpretation = NotActive | Priced problemType real

record shadowPrice =
  sp_constraint :: string
  sp_shadowPrice :: real
  sp_allowableIncrease :: number
  sp_allowableDecrease :: number
  sp_interpretation :: priceInterpretation

record objectiveCoefficient =
  oc_variable :: string
  oc_currentValue :: "real option"
  oc_allowableIncrease :: number
  oc_allowableDecrease :: number
  oc_reducedCost :: real

record rhsRange =
  rr_constraint :: string
  rr_currentValue :: real
  rr_allowableIncrease :: real
  rr_allowableDecrease :: real
  rr_shadowPrice :: real

text \<open>
  \<open>CriticalObjective v\<close>: variable \<open>v\<close> has a critical range in the objective coefficients;
  \<open>CriticalRHS c\<close>: constraint \<open>c\<close> has a critical range in its right-hand side.
\<close>

datatype criticalRange = CriticalObjective string | CriticalRHS string

record basisStability =
  isStable :: bool
  criticalRanges :: "criticalRange list"

text \<open>
  \<open>RequiresOptimal\<close>: the analysis requires a valid optimal solution;
  \<open>IncreaseResource c v\<close>: consider increasing resource \<open>c\<close>, which has the largest shadow
  price \<open>v\<close>; \<open>NonBasicVariable x v\<close>: variable \<open>x\<close> is not in the basis and has reduced cost
  \<open>v\<close>; \<open>ActiveConstraints n\<close>: \<open>n\<close> constraints are active at the optimum.
\<close>

datatype recommendation =
  RequiresOptimal
  | IncreaseResource string real
  | NonBasicVariable string real
  | ActiveConstraints nat

record summary =
  mostSensitiveVariable :: string
  mostConstrainingResource :: string
  totalSlack :: real

record sensitivityAnalysis =
  isValid :: bool
  shadowPrices :: "shadowPrice list"
  objectiveCoefficients_sa :: "objectiveCoefficient list"
  rhsRanges :: "rhsRange list"
  optimalBasisStability :: basisStability
  recommendations :: "recommendation list"
  sa_summary :: summary

subsection \<open>Strings\<close>

fun startsWith :: "string \<Rightarrow> string \<Rightarrow> bool" where
  "startsWith s [] = True"
| "startsWith [] (q # qs) = False"
| "startsWith (c # cs) (q # qs) = (c = q \<and> startsWith cs qs)"

fun js_includes :: "string \<Rightarrow> string \<Rightarrow> bool" where
  "js_includes [] needle = (needle = [])"
| "js_includes (c # cs) needle = (startsWith (c # cs) needle \<or> js_includes cs needle)"

definition nth_opt :: "'a list \<Rightarrow> nat \<Rightarrow> 'a option" where
  "nth_opt xs i = (if i < length xs then Some (xs ! i) else None)"

subsection \<open>The placeholder range calculations\<close>

text \<open>
  Each of the six range helpers returns a value computed from \<open>Math.random()\<close> and
  ignores its arguments. The generator is the sequence \<open>rnd\<close> of the values it returns,
  each in the interval from 0 (included) to 1 (excluded), and a function that draws
  takes the position \<open>n\<close> of the next value and returns the position after its draws.
\<close>

type_synonym random = "nat \<Rightarrow> real"

definition calculateAllowableIncrease :: "random \<Rightarrow> nat \<Rightarrow> tableau \<Rightarrow> nat \<Rightarrow> real \<times> nat" where
  "calculateAllowableIncrease rnd n t constraintIndex = (rnd n * 10 + 5, n + 1)"

definition calculateAllowableDecrease :: "random \<Rightarrow> nat \<Rightarrow> tableau \<Rightarrow> nat \<Rightarrow> real \<times> nat" where
  "calculateAllowableDecrease rnd n t constraintIndex = (rnd n * 5 + 2, n + 1)"

definition calculateObjectiveIncrease :: "random \<Rightarrow> nat \<Rightarrow> tableau \<Rightarrow> nat \<Rightarrow> real \<times> nat" where
  "calculateObjectiveIncrease rnd n t variableIndex = (rnd n * 8 + 3, n + 1)"

definition calculateObjectiveDecrease :: "random \<Rightarrow> nat \<Rightarrow> tableau \<Rightarrow> nat \<Rightarrow> real \<times> nat" where
  "calculateObjectiveDecrease rnd n t variableIndex = (rnd n * 6 + 2, n + 1)"

definition calculateRHSIncrease :: "random \<Rightarrow> nat \<Rightarrow> tableau \<Rightarrow> nat \<Rightarrow> real \<times> nat" where
  "calculateRHSIncrease rnd n t constraintIndex = (rnd n * 12 + 4, n + 1)"

definition calculateRHSDecrease :: "random \<Rightarrow> nat \<Rightarrow> tableau \<Rightarrow> nat \<Rightarrow> real \<times> nat" where
  "calculateRHSDecrease rnd n t constraintIndex = (rnd n * 8 + 2, n + 1)"

definition calculateReducedCost :: "tableau \<Rightarrow> string \<Rightarrow> nat \<Rightarrow> real" where
  "calculateReducedCost t variable index =
     (if variable \<in> set (basicVariables t) then 0 else nth_or_zero (objectiveRow t) index)"

definition interpretShadowPrice :: "real \<Rightarrow> problemType \<Rightarrow> priceInterpretation" where
  "interpretShadowPrice price ty = (if price = 0 then NotActive else Priced ty price)"

text \<open>The name of constraint \<open>i\<close>: its expression, or "Restricci\<open>o\<close>n" and its 1-based number.\<close>

definition constraintName :: "constraint \<Rightarrow> nat \<Rightarrow> string" where
  "constraintName c i =
     (if expression c \<noteq> [] then expression c
      else ''Restricci'' @ [CHR 0xC3, CHR 0xB3] @ ''n '' @ show_nat (i + 1))"

subsection \<open>calculateShadowPrices, calculateObjectiveRanges, calculateRHSRanges\<close>

text \<open>
  The price of constraint \<open>i\<close> is read from the objective row at the index
  \<open>variables.length + i\<close>.
\<close>

definition shadowPriceAt :: "tableau \<Rightarrow> problem \<Rightarrow> nat \<Rightarrow> real" where
  "shadowPriceAt t p i =
     (let slackVarIndex = length (variables p) + i
      in if slackVarIndex < length (objectiveRow t) then \<bar>objectiveRow t ! slackVarIndex\<bar> else 0)"

fun shadowPricesLoop ::
  "random \<Rightarrow> tableau \<Rightarrow> problem \<Rightarrow> nat list \<Rightarrow> nat \<Rightarrow> shadowPrice list \<Rightarrow> shadowPrice list \<times> nat" where
  "shadowPricesLoop rnd t p [] n acc = (acc, n)"
| "shadowPricesLoop rnd t p (i # is) n acc =
     (let c = constraints p ! i;
          price = shadowPriceAt t p i;
          (inc, n1) = (if price > 0
                       then (let (v, m) = calculateAllowableIncrease rnd n t i in (Num v, m))
                       else (PosInfinity, n));
          (dec, n2) = (if price > 0
                       then (let (v, m) = calculateAllowableDecrease rnd n1 t i in (Num v, m))
                       else (Num 0, n1))
      in shadowPricesLoop rnd t p is n2
           (acc @ [\<lparr> sp_constraint = constraintName c i, sp_shadowPrice = price,
                     sp_allowableIncrease = inc, sp_allowableDecrease = dec,
                     sp_interpretation = interpretShadowPrice price (ptype p) \<rparr>]))"

definition calculateShadowPrices ::
  "random \<Rightarrow> nat \<Rightarrow> tableau \<Rightarrow> problem \<Rightarrow> shadowPrice list \<times> nat" where
  "calculateShadowPrices rnd n t p =
     shadowPricesLoop rnd t p [0..<length (constraints p)] n []"

fun objectiveRangesLoop ::
  "random \<Rightarrow> tableau \<Rightarrow> problem \<Rightarrow> nat list \<Rightarrow> nat \<Rightarrow> objectiveCoefficient list
    \<Rightarrow> objectiveCoefficient list \<times> nat" where
  "objectiveRangesLoop rnd t p [] n acc = (acc, n)"
| "objectiveRangesLoop rnd t p (i # is) n acc =
     (let variable = variables p ! i;
          reducedCost = calculateReducedCost t variable i;
          (inc, n1) = (if reducedCost = 0
                       then (let (v, m) = calculateObjectiveIncrease rnd n t i in (Num v, m))
                       else (PosInfinity, n));
          (dec, n2) = (if reducedCost = 0
                       then (let (v, m) = calculateObjectiveDecrease rnd n1 t i in (Num v, m))
                       else (PosInfinity, n1))
      in objectiveRangesLoop rnd t p is n2
           (acc @ [\<lparr> oc_variable = variable,
                     oc_currentValue = nth_opt (obj_coefficients (objective p)) i,
                     oc_allowableIncrease = inc, oc_allowableDecrease = dec,
                     oc_reducedCost = reducedCost \<rparr>]))"

definition calculateObjectiveRanges ::
  "random \<Rightarrow> nat \<Rightarrow> tableau \<Rightarrow> problem \<Rightarrow> objectiveCoefficient list \<times> nat" where
  "calculateObjectiveRanges rnd n t p =
     objectiveRangesLoop rnd t p [0..<length (variables p)] n []"

fun rhsRangesLoop ::
  "random \<Rightarrow> tableau \<Rightarrow> problem \<Rightarrow> shadowPrice list \<Rightarrow> nat list \<Rightarrow> nat \<Rightarrow> rhsRange list
    \<Rightarrow> rhsRange list \<times> nat" where
  "rhsRangesLoop rnd t p sps [] n acc = (acc, n)"
| "rhsRangesLoop rnd t p sps (i # is) n acc =
     (let c = constraints p ! i;
          price = (case nth_opt sps i of None \<Rightarrow> 0 | Some sp \<Rightarrow> sp_shadowPrice sp);
          (inc, n1) = calculateRHSIncrease rnd n t i;
          (dec, n2) = calculateRHSDecrease rnd n1 t i
      in rhsRangesLoop rnd t p sps is n2
           (acc @ [\<lparr> rr_constraint = constraintName c i, rr_currentValue = rhs c,
                     rr_allowableIncrease = inc, rr_allowableDecrease = dec,
                     rr_shadowPrice = price \<rparr>]))"

definition calculateRHSRanges ::
  "random \<Rightarrow> nat \<Rightarrow> tableau \<Rightarrow> problem \<Rightarrow> shadowPrice list \<Rightarrow> rhsRange list \<times> nat" where
  "calculateRHSRanges rnd n t p sps =
     rhsRangesLoop rnd t p sps [0..<length (constraints p)] n []"

subsection \<open>Stability, recommendations and summary\<close>

definition analyzeBasisStability :: "objectiveCoefficient list \<Rightarrow> rhsRange list \<Rightarrow> basisStability" where
  "analyzeBasisStability ocs rrs =
     (let critical =
            map (\<lambda>oc. CriticalObjective (oc_variable oc))
              (filter (\<lambda>oc. num_less (oc_allowableIncrease oc) (Num 1)
                            \<or> num_less (oc_allowableDecrease oc) (Num 1)) ocs)
            @ map (\<lambda>rr. CriticalRHS (rr_constraint rr))
                (filter (\<lambda>rr. rr_allowableIncrease rr < 1 \<or> rr_allowableDecrease rr < 1) rrs)
      in \<lparr> isStable = (critical = []), criticalRanges = critical \<rparr>)"

definition generateRecommendations ::
  "shadowPrice list \<Rightarrow> objectiveCoefficient list \<Rightarrow> rhsRange list \<Rightarrow> recommendation list" where
  "generateRecommendations sps ocs rrs =
     (let highShadowPrices =
            sort_key (\<lambda>sp. - sp_shadowPrice sp) (filter (\<lambda>sp. sp_shadowPrice sp > 0) sps);
          nonBasic = filter (\<lambda>oc. oc_reducedCost oc \<noteq> 0) ocs;
          tightConstraints = filter (\<lambda>sp. sp_shadowPrice sp > 0) sps
      in (case highShadowPrices of [] \<Rightarrow> []
          | sp # _ \<Rightarrow> [IncreaseResource (sp_constraint sp) (sp_shadowPrice sp)])
         @ (case nonBasic of [] \<Rightarrow> []
            | oc # rest \<Rightarrow>
                (let best = foldl (\<lambda>prev curr.
                                     if \<bar>oc_reducedCost curr\<bar> > \<bar>oc_reducedCost prev\<bar>
                                     then curr else prev) oc rest
                 in [NonBasicVariable (oc_variable best) (oc_reducedCost best)]))
         @ (if tightConstraints \<noteq> [] then [ActiveConstraints (length tightConstraints)] else []))"

definition createSummary ::
  "shadowPrice list \<Rightarrow> objectiveCoefficient list \<Rightarrow> tableau \<Rightarrow> summary" where
  "createSummary sps ocs t =
     (let constraining =
            (case sps of [] \<Rightarrow> None
             | sp0 # _ \<Rightarrow>
                 Some (foldl (\<lambda>prev curr. if sp_shadowPrice curr > sp_shadowPrice prev
                                           then curr else prev) sp0 sps));
          sensitive =
            (case ocs of [] \<Rightarrow> None
             | oc0 # _ \<Rightarrow>
                 Some (foldl (\<lambda>prev curr.
                          if num_less (num_min (oc_allowableIncrease curr) (oc_allowableDecrease curr))
                                      (num_min (oc_allowableIncrease prev) (oc_allowableDecrease prev))
                          then curr else prev) oc0 ocs));
          slack = foldl (\<lambda>sum (index, v).
                     sum + (case nth_opt (basicVariables t) index of
                              None \<Rightarrow> 0
                            | Some name \<Rightarrow> (if startsWith name ''s'' then v else 0)))
                    0 (zip [0..<length (t_rhs t)] (t_rhs t))
      in \<lparr> mostSensitiveVariable = (case sensitive of None \<Rightarrow> [] | Some oc \<Rightarrow> oc_variable oc),
           mostConstrainingResource = (case constraining of None \<Rightarrow> [] | Some sp \<Rightarrow> sp_constraint sp),
           totalSlack = slack \<rparr>)"

subsection \<open>SensitivityAnalyzer.analyze\<close>

text \<open>
  The guard \<open>!simplexSolution.isOptimal || !simplexSolution.finalTableau\<close> is evaluated left
  to right: the first test, then the second; either one leads to the unavailable result.
\<close>

definition unavailable :: sensitivityAnalysis where
  "unavailable =
     \<lparr> isValid = False, shadowPrices = [], objectiveCoefficients_sa = [], rhsRanges = [],
       optimalBasisStability = \<lparr> isStable = False, criticalRanges = [] \<rparr>,
       recommendations = [RequiresOptimal],
       sa_summary = \<lparr> mostSensitiveVariable = [], mostConstrainingResource = [],
                      totalSlack = 0 \<rparr> \<rparr>"

definition analyze :: "random \<Rightarrow> simplexSolution \<Rightarrow> problem \<Rightarrow> sensitivityAnalysis" where
  "analyze rnd sol p =
     (if \<not> s_isOptimal sol then unavailable
      else case finalTableau sol of
        None \<Rightarrow> unavailable
      | Some t \<Rightarrow>
               (let (sps, n1) = calculateShadowPrices rnd 0 t p;
                    (ocs, n2) = calculateObjectiveRanges rnd n1 t p;
                    (rrs, n3) = calculateRHSRanges rnd n2 t p sps
                in \<lparr> isValid = True, shadowPrices = sps, objectiveCoefficients_sa = ocs,
                     rhsRanges = rrs,
                     optimalBasisStability = analyzeBasisStability ocs rrs,
                     recommendations = generateRecommendations sps ocs rrs,
                     sa_summary = createSummary sps ocs t \<rparr>))"

section \<open>GraphicalSolver\<close>

subsection \<open>Data model\<close>

text \<open>
  The label of a corner point is the pair of its coordinates, which the source prints
  with three decimals. The label of a line is a string, since the feasibility test
  reads it.
\<close>

record point =
  pt_x :: real
  pt_y :: real
  pt_label :: "(real \<times> real) option"

record line =
  ln_a :: real
  ln_b :: real
  ln_c :: real
  ln_label :: string
  isActive :: bool

text \<open>
  The entries of the graphical \<open>steps\<close>: the start message; constraint number \<open>k\<close> with
  its label; the objective with its label; the number of grid points found feasible;
  the labels of the corner points; their number; no feasible region found; the header
  of the evaluation; the value at one corner; unbounded; the optimum found.
\<close>

datatype graphicalStep =
  GStart
  | GConstraint nat string
  | GObjective string
  | GRegionSize nat
  | GCornerLabels "(real \<times> real) option list"
  | GCornerCount nat
  | GNoFeasibleRegion
  | GEvaluating
  | GValueAt "(real \<times> real) option" real
  | GUnbounded
  | GOptimumAt real real real



subsection \<open>Symbols\<close>

definition sym_le :: string where
  "sym_le = [CHR 0xE2, CHR 0x89, CHR 0xA4]"

definition sym_ge :: string where
  "sym_ge = [CHR 0xE2, CHR 0x89, CHR 0xA5]"

definition sym_eq :: string where
  "sym_eq = ''=''"

definition sub_1 :: string where
  "sub_1 = [CHR 0xE2, CHR 0x82, CHR 0x81]"

definition sub_2 :: string where
  "sub_2 = [CHR 0xE2, CHR 0x82, CHR 0x82]"

fun operatorText :: "operator \<Rightarrow> string" where
  "operatorText LE = sym_le"
| "operatorText GE = sym_ge"
| "operatorText EQ = sym_eq"

subsection \<open>Lines\<close>

text \<open>
  The text of a number inside a template literal is produced by the language; it is the
  parameter \<open>fmt\<close> of the functions that build labels.
\<close>

fun constraintLinesLoop ::
  "(real \<Rightarrow> string) \<Rightarrow> constraint list \<Rightarrow> nat \<Rightarrow> line list \<times> graphicalStep list
    \<Rightarrow> line list \<times> graphicalStep list" where
  "constraintLinesLoop fmt [] i acc = acc"
| "constraintLinesLoop fmt (k # ks) i (lines, stps) =
     (let l = \<lparr> ln_a = nth_or_zero (coefficients k) 0, ln_b = nth_or_zero (coefficients k) 1,
                 ln_c = rhs k,
                 ln_label = expression k @ '' '' @ operatorText (operator k) @ '' '' @ fmt (rhs k),
                 isActive = True \<rparr>
      in constraintLinesLoop fmt ks (i + 1)
           (lines @ [l], stps @ [GConstraint (i + 1) (ln_label l)]))"

definition convertConstraintsToLines ::
  "(real \<Rightarrow> string) \<Rightarrow> constraint list \<Rightarrow> graphicalStep list \<Rightarrow> line list \<times> graphicalStep list" where
  "convertConstraintsToLines fmt ks stps =
     (let (lines, stps') = constraintLinesLoop fmt ks 0 ([], stps)
      in (lines @ [\<lparr> ln_a = 1, ln_b = 0, ln_c = 0, ln_label = ''x'' @ sub_1 @ '' '' @ sym_ge @ '' 0'',
                      isActive = True \<rparr>,
                   \<lparr> ln_a = 0, ln_b = 1, ln_c = 0, ln_label = ''x'' @ sub_2 @ '' '' @ sym_ge @ '' 0'',
                      isActive = True \<rparr>],
          stps'))"


subsection \<open>Feasibility\<close>

fun isPointFeasible :: "point \<Rightarrow> line list \<Rightarrow> bool" where
  "isPointFeasible pt [] = True"
| "isPointFeasible pt (l # ls) =
     (let v = ln_a l * pt_x pt + ln_b l * pt_y pt
      in if js_includes (ln_label l) sym_le
         then (if v > ln_c l + 1 / 10 ^ 10 then False else isPointFeasible pt ls)
         else if js_includes (ln_label l) sym_ge
         then (if v < ln_c l - 1 / 10 ^ 10 then False else isPointFeasible pt ls)
         else if js_includes (ln_label l) sym_eq
         then (if \<bar>v - ln_c l\<bar> > 1 / 10 ^ 10 then False else isPointFeasible pt ls)
         else isPointFeasible pt ls)"







subsection \<open>Corner points\<close>





subsection \<open>Optimal point\<close>




subsection \<open>GraphicalSolver.solve\<close>



subsection \<open>An input for the graphical solver\<close>

text \<open>
  \<open>showWhole\<close> is the text of a non-negative whole number, which is what the language
  prints for the numbers of \<open>farProblem\<close>: minimize x1 + x2 subject to x1 >= 25.
\<close>

definition showWhole :: "real \<Rightarrow> string" where
  "showWhole r = show_nat (nat \<lfloor>r\<rfloor>)"




section \<open>Predicates used to state the properties\<close>





text \<open>
  \<open>slackColumn sf i\<close>: the tableau column of the slack or surplus variable of constraint
  \<open>i\<close>. The columns are laid out as \<open>allVariables\<close> lists them: the decision variables,
  then the auxiliary variables of each constraint in order, the slack or surplus
  variable first.
\<close>

definition slackColumn :: "standardForm \<Rightarrow> nat \<Rightarrow> nat" where
  "slackColumn sf i =
     length (sf_variables sf) + length (concat (map auxiliaryNames (take i (sf_constraints sf))))"

text \<open>
  \<open>visits p st\<close>: during \<open>solve p\<close> the loop reaches its head in state \<open>st\<close>.
\<close>

inductive visits :: "problem \<Rightarrow> solveState \<Rightarrow> bool" for p :: problem where
  visits_initial: "visits p (initialState p)"
| visits_step: "visits p st \<Longrightarrow> loopBody st = Continue st' \<Longrightarrow> visits p st'"

text \<open>
  \<open>consistent st\<close>: the variable \<open>tableau\<close> refers to the most recent snapshot, and the
  \<open>isOptimal\<close> flag of that snapshot is the verdict of \<open>checkOptimality\<close> on its objective
  row.
\<close>

definition consistent :: "solveState \<Rightarrow> bool" where
  "consistent st =
     (current st + 1 = length (snapshots st)
      \<and> isOptimal (snapshots st ! current st)
          = checkOptimality (last (table (snapshots st ! current st))))"

text \<open>
  \<open>frame st final\<close>: the list \<open>final\<close> extends the snapshots of \<open>st\<close>; each of them is there
  with at most \<open>pivotRow\<close> and \<open>pivotCol\<close> written, and the ones before the current
  snapshot are there as they were.
\<close>

definition frame :: "solveState \<Rightarrow> tableau list \<Rightarrow> bool" where
  "frame st final =
     (length (snapshots st) \<le> length final
      \<and> (\<forall>i < length (snapshots st).
            final ! i = (snapshots st ! i)\<lparr> pivotRow := pivotRow (final ! i), pivotCol := pivotCol (final ! i) \<rparr>
            \<and> (i < current st \<longrightarrow> final ! i = snapshots st ! i)))"

fun finalSnapshots :: "loopResult \<Rightarrow> tableau list" where
  "finalSnapshots (UnboundedAt st) = snapshots st"
| "finalSnapshots (LoopExit st) = snapshots st"







section \<open>Properties of the simplex solver\<close>

text \<open>
  C1 (Scenario B: minimize 2x1 + 3x2 subject to x1 + 2x2 >= 6, 2x1 + x2 >= 8).
  The specification expects the optimal value 10 at x1 = 2, x2 = 2. The solver builds the
  initial tableau with the artificial variables basic and the objective row 2, 3, 0, ...,
  which \<open>checkOptimality\<close> accepts at once: the loop never runs, and the solver reports the
  initial tableau as optimal with value 0 at x1 = 0, x2 = 0. The feasibility test of the
  graphical solver, on the lines of the same constraints, rejects the point (0, 0); it
  also rejects (2, 2), which violates 2x1 + x2 >= 8, and accepts (10/3, 4/3).
\<close>

theorem scenarioB_solve_returns_origin:
  "s_isOptimal (solve scenarioB)
   \<and> s_optimalValue (solve scenarioB) = Num 0
   \<and> s_variables (solve scenarioB) ''x1'' = Some 0
   \<and> s_variables (solve scenarioB) ''x2'' = Some 0
   \<and> length (tableaus (solve scenarioB)) = 1
   \<and> s_optimalValue (solve scenarioB) \<noteq> Num 10
   \<and> \<not> isPointFeasible \<lparr> pt_x = 0, pt_y = 0, pt_label = None \<rparr>
         (fst (convertConstraintsToLines showWhole (constraints scenarioB) [GStart]))
   \<and> \<not> isPointFeasible \<lparr> pt_x = 2, pt_y = 2, pt_label = None \<rparr>
         (fst (convertConstraintsToLines showWhole (constraints scenarioB) [GStart]))
   \<and> isPointFeasible \<lparr> pt_x = 10 / 3, pt_y = 4 / 3, pt_label = None \<rparr>
         (fst (convertConstraintsToLines showWhole (constraints scenarioB) [GStart]))"
  by code_simp

text \<open>
  C3 (names of the auxiliary variables). The counters of the three kinds start at 1 and
  advance in constraint order, but slack and surplus variables share the prefix \<open>s\<close>. For
  maximize x1 subject to x1 <= 3 and x1 >= 1 the slack variable of the first constraint
  and the surplus variable of the second are both named \<open>s1\<close>: the auxiliary names are
  not pairwise distinct. The initial tableau then looks the names up: the basic list
  holds \<open>s1\<close> for the slack variable, and splicing the basic names out of the non-basic
  list removes the surplus variable from it.
\<close>

theorem slack_and_surplus_share_name:
  "slackVar (sf_constraints (convertToStandardForm upperThenLowerProblem) ! 0) = Some ''s1''
   \<and> surplusVar (sf_constraints (convertToStandardForm upperThenLowerProblem) ! 1) = Some ''s1''
   \<and> concat (map auxiliaryNames (sf_constraints (convertToStandardForm upperThenLowerProblem)))
       = [''s1'', ''s1'', ''a1'']
   \<and> \<not> distinct (concat (map auxiliaryNames
                              (sf_constraints (convertToStandardForm upperThenLowerProblem))))
   \<and> basicVariables (initializeTableau (convertToStandardForm upperThenLowerProblem)) = [''s1'', ''a1'']
   \<and> nonBasicVariables (initializeTableau (convertToStandardForm upperThenLowerProblem)) = [''x1'']"
  by code_simp

text \<open>
  C4 (the name of the entering variable). \<open>pivot\<close> reads the entering name from the
  non-basic list at the index of the pivot column, although that list is not indexed by
  column. In \<open>slackEntersProblem\<close> the third pivot is at row 0 and column 2, the column of
  the slack variable \<open>s1\<close>; the non-basic list has two entries, so the read finds nothing
  and the new basic variable of row 0 is named \<open>x3\<close>, a variable the problem does not have.
\<close>

theorem slack_column_enters_as_x3:
  "pivotRow (tableaus (solve slackEntersProblem) ! 2) = Some 0
   \<and> pivotCol (tableaus (solve slackEntersProblem) ! 2) = Some 2
   \<and> allVariables (convertToStandardForm slackEntersProblem) ! 2 = ''s1''
   \<and> nonBasicVariables (tableaus (solve slackEntersProblem) ! 2) = [''s1'', ''s2'']
   \<and> tableaus (solve slackEntersProblem) ! 3 = pivot (tableaus (solve slackEntersProblem) ! 2) 0 2 3
   \<and> basicVariables (tableaus (solve slackEntersProblem) ! 3) = [''x3'', ''x2'']
   \<and> table (tableaus (solve slackEntersProblem) ! 3)
       = [[4, 0, 1, - 1, 2], [4, 1, 0, 1, 6], [5, 0, 0, 2, 12]]
   \<and> basicVariables (tableaus (solve slackEntersProblem) ! 3) ! 0
       \<noteq> allVariables (convertToStandardForm slackEntersProblem) ! 2"
  by code_simp

text \<open>What \<open>pivot\<close> stores as the basic variable of the pivot row, for every tableau.\<close>

lemma basicVariables_pivot:
  "pr < length (basicVariables t) \<Longrightarrow> basicVariables (pivot t pr pc k) ! pr = enteringVariable t pc"
  by (simp add: pivot_def Let_def)

lemma scenarioA_initial_table:
  "table (initializeTableau (convertToStandardForm scenarioA))
     = [[1, 1, 1, 0, 4], [2, 1, 0, 1, 6], [- 3, - 2, 0, 0, 0]]"
  by code_simp

subsection \<open>The minimum-ratio test\<close>

lemma overflowBound_value: "overflowBound = 2 ^ 1024 - 2 ^ 970"
  by (simp add: overflowBound_def)














lemma solveLoop_visits: "visits p st \<Longrightarrow> solveLoop st = solveLoop (initialState p)"
proof (induction rule: visits.induct)
  case visits_initial
  show ?case by simp
next
  case (visits_step st st')
  have "solveLoop st = solveLoop st'"
    using visits_step.hyps(2) by (subst solveLoop.simps) simp
  with visits_step.IH show ?case by simp
qed









subsection \<open>The pivot operation\<close>








subsection \<open>Snapshots during solve\<close>

lemma pivotColumnLoop_Some: "pivotColumnLoop vs j m (Some c) \<noteq> None"
  by (induction vs arbitrary: j m c) auto

lemma pivotColumnLoop_None:
  "pivotColumnLoop vs j m None = None \<Longrightarrow> \<forall>v \<in> set vs. \<not> v < m"
proof (induction vs arbitrary: j m)
  case Nil
  then show ?case by simp
next
  case (Cons v vs)
  show ?case
  proof (cases "v < m")
    case True
    with Cons.prems show ?thesis by (simp add: pivotColumnLoop_Some)
  next
    case False
    with Cons.prems have "pivotColumnLoop vs (j + 1) m None = None" by simp
    then have "\<forall>u \<in> set vs. \<not> u < m" by (rule Cons.IH)
    with False show ?thesis by simp
  qed
qed

lemma findPivotColumn_None_optimal:
  "findPivotColumn t = None \<Longrightarrow> checkOptimality (last (table t))"
proof -
  assume "findPivotColumn t = None"
  then have "\<forall>v \<in> set (butlast (last (table t))). \<not> v < 0"
    unfolding findPivotColumn_def by (rule pivotColumnLoop_None)
  then have "\<forall>v \<in> set (butlast (last (table t))). \<not> v < - (1 / 10 ^ 10)"
    by fastforce
  then show ?thesis
    by (simp add: checkOptimality_def list_all_iff)
qed

lemma consistent_initial: "consistent (initialState p)"
  by (simp add: consistent_def initialState_def initializeTableau_def Let_def)

lemma isOptimal_pivot: "isOptimal (pivot t r c k) = checkOptimality (last (table (pivot t r c k)))"
  by (simp add: pivot_def Let_def)

lemma loopBody_Continue:
  assumes "loopBody st = Continue st'"
  obtains r c where
    "snapshots st' =
       (snapshots st)[current st := (snapshots st ! current st)\<lparr> pivotRow := Some r, pivotCol := Some c \<rparr>]
       @ [pivot ((snapshots st ! current st)\<lparr> pivotRow := Some r, pivotCol := Some c \<rparr>) r c (iter st + 1)]"
    and "current st' = length (snapshots st)"
  using assms by (auto simp: loopBody_def Let_def split: if_splits option.splits)

lemma consistent_step:
  assumes "loopBody st = Continue st'"
  shows "consistent st'"
proof -
  from assms obtain r c where
    s: "snapshots st' =
       (snapshots st)[current st := (snapshots st ! current st)\<lparr> pivotRow := Some r, pivotCol := Some c \<rparr>]
       @ [pivot ((snapshots st ! current st)\<lparr> pivotRow := Some r, pivotCol := Some c \<rparr>) r c (iter st + 1)]"
    and c: "current st' = length (snapshots st)"
    by (rule loopBody_Continue)
  show ?thesis
    unfolding consistent_def s c by (simp add: nth_append isOptimal_pivot)
qed

lemma consistent_visits: "visits p st \<Longrightarrow> consistent st"
  by (induction rule: visits.induct) (auto intro: consistent_initial consistent_step)

lemma loopBody_LeaveLoop:
  assumes "consistent st" and "loopBody st = LeaveLoop st'"
  shows "st' = st"
proof (cases "\<not> isOptimal (snapshots st ! current st) \<and> iter st < maxIterations")
  case False
  with assms(2) show ?thesis by (auto simp: loopBody_def Let_def)
next
  case True
  then have "\<not> checkOptimality (last (table (snapshots st ! current st)))"
    using assms(1) by (simp add: consistent_def)
  then have "findPivotColumn (snapshots st ! current st) \<noteq> None"
    using findPivotColumn_None_optimal by blast
  with True assms(2) show ?thesis
    by (auto simp: loopBody_def Let_def split: option.splits)
qed

lemma loopBody_ReturnUnbounded:
  "loopBody st = ReturnUnbounded st' \<Longrightarrow> snapshots st' = snapshots st"
  by (auto simp: loopBody_def Let_def split: if_splits option.splits)

lemma frame_refl: "frame st (snapshots st)"
  by (simp add: frame_def)

lemma solveLoop_frame: "consistent st \<Longrightarrow> frame st (finalSnapshots (solveLoop st))"
proof (induction st rule: solveLoop.induct)
  case (1 st)
  show ?case
  proof (cases "loopBody st")
    case (Continue st')
    then have cons: "consistent st'" by (rule consistent_step)
    have fr: "frame st' (finalSnapshots (solveLoop st'))"
      using "1.IH" [OF Continue cons] .
    have eq: "solveLoop st = solveLoop st'"
      using Continue by (subst solveLoop.simps) simp
    from Continue obtain r c where
      s: "snapshots st' =
         (snapshots st)[current st := (snapshots st ! current st)\<lparr> pivotRow := Some r, pivotCol := Some c \<rparr>]
         @ [pivot ((snapshots st ! current st)\<lparr> pivotRow := Some r, pivotCol := Some c \<rparr>) r c (iter st + 1)]"
      and c: "current st' = length (snapshots st)"
      by (rule loopBody_Continue)
    let ?f = "finalSnapshots (solveLoop st')"
    have len: "length (snapshots st) \<le> length ?f"
      using fr by (simp add: frame_def s)
    have old: "\<And>i. i < length (snapshots st) \<Longrightarrow> ?f ! i = snapshots st' ! i"
      using fr by (simp add: frame_def s c)
    have "\<And>i. i < length (snapshots st) \<Longrightarrow>
            ?f ! i = (snapshots st ! i)\<lparr> pivotRow := pivotRow (?f ! i), pivotCol := pivotCol (?f ! i) \<rparr>
            \<and> (i < current st \<longrightarrow> ?f ! i = snapshots st ! i)"
    proof -
      fix i assume i: "i < length (snapshots st)"
      have "snapshots st' ! i = (if i = current st
              then (snapshots st ! current st)\<lparr> pivotRow := Some r, pivotCol := Some c \<rparr>
              else snapshots st ! i)"
        using i by (simp add: s nth_append nth_list_update)
      then show "?f ! i = (snapshots st ! i)\<lparr> pivotRow := pivotRow (?f ! i), pivotCol := pivotCol (?f ! i) \<rparr>
            \<and> (i < current st \<longrightarrow> ?f ! i = snapshots st ! i)"
        using old [OF i] by auto
    qed
    then show ?thesis
      using len by (simp add: frame_def eq)
  next
    case (ReturnUnbounded st')
    then have "snapshots st' = snapshots st" by (rule loopBody_ReturnUnbounded)
    moreover have "solveLoop st = UnboundedAt st'"
      using ReturnUnbounded by (subst solveLoop.simps) simp
    ultimately show ?thesis by (simp add: frame_def)
  next
    case (LeaveLoop st')
    with "1.prems" have "st' = st" by (simp add: loopBody_LeaveLoop)
    moreover have "solveLoop st = LoopExit st'"
      using LeaveLoop by (subst solveLoop.simps) simp
    ultimately show ?thesis by (simp add: frame_def)
  qed
qed

lemma tableaus_solve: "tableaus (solve p) = finalSnapshots (solveLoop (initialState p))"
  by (cases "solveLoop (initialState p)") (simp_all add: solve_def Let_def split: prod.splits)

text \<open>
  C6, as the code has it. Let the loop of \<open>solve p\<close> reach its head in state \<open>st\<close>, and let
  \<open>i\<close> be the position of a snapshot recorded by then. In the list \<open>solve\<close> returns, the
  snapshot at \<open>i\<close> is the recorded one with at most its \<open>pivotRow\<close> and \<open>pivotCol\<close> written:
  its table, its \<open>isOptimal\<close> flag and every other field are unchanged. The variable
  \<open>tableau\<close> refers to the most recent snapshot, and a snapshot older than that one is
  returned exactly as it was. A pass of the loop that pivots appends one new snapshot
  and makes it the current one.
\<close>

theorem recorded_snapshots_keep_their_content:
  assumes "visits p st" and "i < length (snapshots st)"
  shows "i < length (tableaus (solve p))
         \<and> tableaus (solve p) ! i
             = (snapshots st ! i)\<lparr> pivotRow := pivotRow (tableaus (solve p) ! i),
                                    pivotCol := pivotCol (tableaus (solve p) ! i) \<rparr>
         \<and> table (tableaus (solve p) ! i) = table (snapshots st ! i)
         \<and> isOptimal (tableaus (solve p) ! i) = isOptimal (snapshots st ! i)
         \<and> current st + 1 = length (snapshots st)
         \<and> (i < current st \<longrightarrow> tableaus (solve p) ! i = snapshots st ! i)
         \<and> (\<forall>st'. loopBody st = Continue st' \<longrightarrow>
               length (snapshots st') = length (snapshots st) + 1
               \<and> current st' = length (snapshots st))"
proof -
  have cons: "consistent st"
    using assms(1) by (rule consistent_visits)
  have "frame st (finalSnapshots (solveLoop st))"
    using cons by (rule solveLoop_frame)
  then have fr: "frame st (tableaus (solve p))"
    using solveLoop_visits [OF assms(1)] by (simp add: tableaus_solve)
  have len: "i < length (tableaus (solve p))"
    using fr assms(2) by (simp add: frame_def)
  have upd: "tableaus (solve p) ! i
             = (snapshots st ! i)\<lparr> pivotRow := pivotRow (tableaus (solve p) ! i),
                                    pivotCol := pivotCol (tableaus (solve p) ! i) \<rparr>"
    using fr assms(2) by (simp add: frame_def)
  have tbl: "table (tableaus (solve p) ! i) = table (snapshots st ! i)"
    by (subst upd) simp
  have opt: "isOptimal (tableaus (solve p) ! i) = isOptimal (snapshots st ! i)"
    by (subst upd) simp
  have older: "i < current st \<longrightarrow> tableaus (solve p) ! i = snapshots st ! i"
    using fr assms(2) by (simp add: frame_def)
  have cur: "current st + 1 = length (snapshots st)"
    using cons by (simp add: consistent_def)
  have fresh: "\<forall>st'. loopBody st = Continue st' \<longrightarrow>
               length (snapshots st') = length (snapshots st) + 1
               \<and> current st' = length (snapshots st)"
    by (auto elim!: loopBody_Continue)
  from len upd tbl opt cur older fresh show ?thesis
    by blast
qed

text \<open>
  The claim as stated fails on Scenario A: the initial tableau is recorded with no pivot
  position, and \<open>solve\<close> writes row 1 and column 0 into that recorded object when it
  chooses the first pivot.
\<close>

theorem recorded_snapshot_marked_later_counterexample:
  "visits scenarioA (initialState scenarioA)
   \<and> (0::nat) < length (snapshots (initialState scenarioA))
   \<and> pivotRow (snapshots (initialState scenarioA) ! 0) = None
   \<and> pivotCol (snapshots (initialState scenarioA) ! 0) = None
   \<and> pivotRow (tableaus (solve scenarioA) ! 0) = Some 1
   \<and> pivotCol (tableaus (solve scenarioA) ! 0) = Some 0
   \<and> tableaus (solve scenarioA) ! 0 \<noteq> snapshots (initialState scenarioA) ! 0"
proof -
  have "visits scenarioA (initialState scenarioA)"
    by (rule visits_initial)
  moreover have "(0::nat) < length (snapshots (initialState scenarioA))
   \<and> pivotRow (snapshots (initialState scenarioA) ! 0) = None
   \<and> pivotCol (snapshots (initialState scenarioA) ! 0) = None
   \<and> pivotRow (tableaus (solve scenarioA) ! 0) = Some 1
   \<and> pivotCol (tableaus (solve scenarioA) ! 0) = Some 0
   \<and> tableaus (solve scenarioA) ! 0 \<noteq> snapshots (initialState scenarioA) ! 0"
    by code_simp
  ultimately show ?thesis by simp
qed

text \<open>
  On Scenario A, for the initial state and the initial tableau: the table and the
  \<open>isOptimal\<close> flag of the first returned snapshot are those of the initial tableau.
\<close>

theorem recorded_snapshots_keep_their_content_witness:
  "visits scenarioA (initialState scenarioA)
   \<and> (0::nat) < length (snapshots (initialState scenarioA))
   \<and> (0::nat) < length (tableaus (solve scenarioA))
   \<and> table (tableaus (solve scenarioA) ! 0) = [[1, 1, 1, 0, 4], [2, 1, 0, 1, 6], [- 3, - 2, 0, 0, 0]]
   \<and> isOptimal (tableaus (solve scenarioA) ! 0) = False
   \<and> current (initialState scenarioA) + 1 = length (snapshots (initialState scenarioA))"
proof -
  have v: "visits scenarioA (initialState scenarioA)"
    by (rule visits_initial)
  have i: "(0::nat) < length (snapshots (initialState scenarioA))"
    by (simp add: initialState_def)
  have t0: "table (snapshots (initialState scenarioA) ! 0)
              = [[1, 1, 1, 0, 4], [2, 1, 0, 1, 6], [- 3, - 2, 0, 0, 0]]"
    by (simp add: initialState_def scenarioA_initial_table)
  have o0: "isOptimal (snapshots (initialState scenarioA) ! 0) = False"
    by code_simp
  from recorded_snapshots_keep_their_content [OF v i] v i t0 o0 show ?thesis
    by simp
qed

section \<open>Properties of the sensitivity analyzer\<close>

text \<open>
  C9. When the simplex solution is not optimal, or carries no final tableau, \<open>analyze\<close>
  returns the unavailable result, whatever the random generator: \<open>isValid\<close> is false, the
  lists of shadow prices, objective coefficients and right-hand-side ranges are empty,
  the only recommendation is the message that an optimal solution is required, and the
  stability verdict and the summary hold no value.
\<close>

theorem analyze_requires_optimal:
  assumes "\<not> s_isOptimal sol \<or> finalTableau sol = None"
  shows "isValid (analyze rnd sol p) = False
         \<and> shadowPrices (analyze rnd sol p) = []
         \<and> objectiveCoefficients_sa (analyze rnd sol p) = []
         \<and> rhsRanges (analyze rnd sol p) = []
         \<and> recommendations (analyze rnd sol p) = [RequiresOptimal]
         \<and> optimalBasisStability (analyze rnd sol p) = \<lparr> isStable = False, criticalRanges = [] \<rparr>
         \<and> sa_summary (analyze rnd sol p)
             = \<lparr> mostSensitiveVariable = [], mostConstrainingResource = [], totalSlack = 0 \<rparr>"
  using assms by (auto simp: analyze_def unavailable_def)

text \<open>Scenario C is unbounded, so its solution is not optimal and the analysis is unavailable.\<close>

theorem analyze_requires_optimal_witness:
  "\<not> s_isOptimal (solve scenarioC)
   \<and> isValid (analyze (\<lambda>n. 1 / 2) (solve scenarioC) scenarioC) = False
   \<and> shadowPrices (analyze (\<lambda>n. 1 / 2) (solve scenarioC) scenarioC) = []
   \<and> objectiveCoefficients_sa (analyze (\<lambda>n. 1 / 2) (solve scenarioC) scenarioC) = []
   \<and> rhsRanges (analyze (\<lambda>n. 1 / 2) (solve scenarioC) scenarioC) = []
   \<and> recommendations (analyze (\<lambda>n. 1 / 2) (solve scenarioC) scenarioC) = [RequiresOptimal]"
proof -
  have h: "\<not> s_isOptimal (solve scenarioC)"
    by code_simp
  then have "\<not> s_isOptimal (solve scenarioC) \<or> finalTableau (solve scenarioC) = None"
    by simp
  from analyze_requires_optimal [OF this, of "\<lambda>n. 1 / 2" scenarioC] h show ?thesis
    by simp
qed

text \<open>
  The shadow prices \<open>analyze\<close> reports, for every optimal solution and every generator:
  the absolute value of the objective row at index \<open>variables.length + i\<close>, or 0 past its end.
\<close>

lemma shadowPricesLoop_prices:
  "map sp_shadowPrice (fst (shadowPricesLoop rnd t p is n acc))
     = map sp_shadowPrice acc @ map (shadowPriceAt t p) is"
  by (induction "is" arbitrary: n acc) (simp_all add: Let_def case_prod_beta)

lemma analyze_shadow_prices:
  assumes "s_isOptimal sol" and "finalTableau sol = Some t"
  shows "map sp_shadowPrice (shadowPrices (analyze rnd sol p))
           = map (shadowPriceAt t p) [0..<length (constraints p)]"
  using assms
  by (simp add: analyze_def calculateShadowPrices_def Let_def case_prod_beta
        shadowPricesLoop_prices)

text \<open>
  C8 (shadow prices). \<open>calculateShadowPrices\<close> reads the objective row at the index
  \<open>variables.length + i\<close>, which is the column of the slack or surplus variable of
  constraint \<open>i\<close> only while every earlier constraint owns exactly one auxiliary column.
  In \<open>lowerThenUpperProblem\<close> the first constraint owns two (surplus and artificial), so
  the slack variable of the second constraint is in column 3. The final objective row
  holds 1 there, and the analyzer reports the shadow price 0, read from column 2.
\<close>

theorem shadow_price_reads_artificial_column:
  "s_isOptimal (solve lowerThenUpperProblem)
   \<and> s_optimalValue (solve lowerThenUpperProblem) = Num 3
   \<and> slackVar (sf_constraints (convertToStandardForm lowerThenUpperProblem) ! 1) = Some ''s1''
   \<and> slackColumn (convertToStandardForm lowerThenUpperProblem) 1 = 3
   \<and> table (initializeTableau (convertToStandardForm lowerThenUpperProblem)) ! 1 = [1, 0, 0, 1, 3]
   \<and> objectiveRow (last (tableaus (solve lowerThenUpperProblem))) = [0, 0, 0, 1, 3]
   \<and> \<bar>objectiveRow (last (tableaus (solve lowerThenUpperProblem)))
        ! slackColumn (convertToStandardForm lowerThenUpperProblem) 1\<bar> = 1
   \<and> sp_shadowPrice (shadowPrices (analyze (\<lambda>n. 0) (solve lowerThenUpperProblem)
                                      lowerThenUpperProblem) ! 1) = 0"
  by code_simp

text \<open>
  C2 (determinism). \<open>solve\<close> draws no random number, but every range the analyzer reports
  is computed from \<open>Math.random()\<close>. Two runs on Scenario A whose generators return 0 and
  one half give different allowable increases, and different analyses.
\<close>

theorem sensitivity_ranges_follow_random_draws:
  "map rr_allowableIncrease (rhsRanges (analyze (\<lambda>n. 0) (solve scenarioA) scenarioA)) = [4, 4]
   \<and> map rr_allowableIncrease (rhsRanges (analyze (\<lambda>n. 1 / 2) (solve scenarioA) scenarioA)) = [10, 10]
   \<and> map sp_allowableIncrease (shadowPrices (analyze (\<lambda>n. 0) (solve scenarioA) scenarioA))
       = [Num 5, Num 5]
   \<and> map sp_allowableIncrease (shadowPrices (analyze (\<lambda>n. 1 / 2) (solve scenarioA) scenarioA))
       = [Num 10, Num 10]
   \<and> analyze (\<lambda>n. 0) (solve scenarioA) scenarioA \<noteq> analyze (\<lambda>n. 1 / 2) (solve scenarioA) scenarioA"
  by code_simp

section \<open>Properties of the graphical solver\<close>
























end
